theory Spec2Isabelle
  imports Complex_Main "HOL-Library.Sublist"
begin

section \<open>Map helper (src/assets/js/map-core.js)\<close>

text \<open>
  \<^verbatim>\<open>getColor(mins)\<close> compares its argument with the constants 30 and 60 using the
  JavaScript operator \<^verbatim>\<open><\<close>. A JavaScript number is a finite double, one of the two
  infinities, or NaN. A finite double is modelled by the real number it denotes: the
  comparison of two finite doubles is the comparison of their values, and 30 and 60 are
  doubles. Every real is admitted, so the doubles are covered. An argument that is not a number
  is converted to one by \<^verbatim>\<open><\<close> before the comparison; the model starts after that
  conversion.
\<close>

datatype number = Finite real | PosInfinity | NegInfinity | NaN

text \<open>The operator \<^verbatim>\<open><\<close> on numbers: any comparison with NaN is false.\<close>

fun js_lt :: "number \<Rightarrow> number \<Rightarrow> bool" where
  "js_lt NaN _ = False"
| "js_lt _ NaN = False"
| "js_lt (Finite x) (Finite y) = (x < y)"
| "js_lt _ NegInfinity = False"
| "js_lt NegInfinity _ = True"
| "js_lt PosInfinity _ = False"
| "js_lt _ PosInfinity = True"

text \<open>The operator \<^verbatim>\<open>>=\<close> on numbers: false with NaN, otherwise the negation of \<^verbatim>\<open><\<close>.\<close>

definition js_ge :: "number \<Rightarrow> number \<Rightarrow> bool" where
  "js_ge a b = (a \<noteq> NaN \<and> b \<noteq> NaN \<and> \<not> js_lt a b)"

text \<open>
  \<^verbatim>\<open>
  function getColor(mins) {
    if (mins < 30) return '#22c55e';
    if (mins < 60) return '#f59e0b';
    return '#ef4444';
  }
  \<close>
  The three literals are the green, the amber and the red of the markers.
\<close>

definition getColor :: "number \<Rightarrow> string" where
  "getColor mins =
     (if js_lt mins (Finite 30) then ''#22c55e''
      else if js_lt mins (Finite 60) then ''#f59e0b''
      else ''#ef4444'')"

section \<open>Service worker (src/sw.js)\<close>

subsection \<open>Requests, responses, promises\<close>

text \<open>
  A request carries what the worker and the platform read of it: its absolute URL
  (\<^verbatim>\<open>e.request.url\<close>), its method (\<^verbatim>\<open>e.request.method\<close>), the host name that
  \<^verbatim>\<open>new URL(e.request.url).hostname\<close> yields, and its destination
  (\<^verbatim>\<open>e.request.destination\<close>). A response carries its status code, the field
  names of its \<^verbatim>\<open>Vary\<close> header, and its body.
\<close>

record request =
  url :: string
  http_method :: string
  hostname :: string
  destination :: string

record response =
  status :: nat
  vary :: "string list"
  body :: string

text \<open>
  A promise, once settled, is resolved with a value or rejected with an error. The
  model is sequential: each handler is run until every promise it started has settled,
  and the state it returns is the state at that moment.
\<close>

datatype error = NetworkFailure | TypeError

datatype 'a promise = Resolved 'a | Rejected error

subsection \<open>The host platform: network and cache storage\<close>

text \<open>
  The platform is not part of the repository; it is modelled after the Cache and Fetch
  interfaces the worker calls. The network answers a URL with a response or fails. A
  cache is a list of (request URL, response) pairs, and stores requests of method GET
  only. The cache storage is the sequence of named caches, in the order of their
  creation. Requests carry no headers in the model, so a stored response matches
  whatever its \<^verbatim>\<open>Vary\<close> header names.
\<close>

type_synonym network = "string \<Rightarrow> response promise"

type_synonym cache = "(string \<times> response) list"

type_synonym cache_storage = "(string \<times> cache) list"

text \<open>
  The state the handlers act on: the cache storage, the URLs requested from the network
  so far, and whether \<^verbatim>\<open>self.skipWaiting()\<close> and \<^verbatim>\<open>self.clients.claim()\<close> were called.
\<close>

record world =
  caches :: cache_storage
  issued :: "string list"
  skipped_waiting :: bool
  clients_claimed :: bool

text \<open>\<^verbatim>\<open>fetch(request)\<close>: one network request, recorded in the log.\<close>

definition fetch :: "network \<Rightarrow> string \<Rightarrow> world \<Rightarrow> response promise \<times> world" where
  "fetch net u w = (net u, w\<lparr>issued := issued w @ [u]\<rparr>)"

text \<open>
  Two URLs match in a cache when they are equal up to their fragments: the part of a URL
  from the first \<^verbatim>\<open>#\<close> on is ignored.
\<close>

definition cache_key :: "string \<Rightarrow> string" where
  "cache_key u = takeWhile (\<lambda>c. c \<noteq> CHR ''#'') u"

text \<open>The cache takes requests over http and https only.\<close>

definition http_scheme :: "string \<Rightarrow> bool" where
  "http_scheme u = (prefix ''http://'' u \<or> prefix ''https://'' u)"

text \<open>\<^verbatim>\<open>cache.match\<close> for a GET request of the given URL: the first matching entry.\<close>

definition cache_match :: "string \<Rightarrow> cache \<Rightarrow> response option" where
  "cache_match u c = map_of (map (\<lambda>(k, r). (cache_key k, r)) c) (cache_key u)"

text \<open>
  Storing a pair, once it was accepted: the entries that match the URL are removed and
  the pair is added.
\<close>

definition store :: "string \<Rightarrow> response \<Rightarrow> cache \<Rightarrow> cache" where
  "store u r c = filter (\<lambda>(k, _). cache_key k \<noteq> cache_key u) c @ [(u, r)]"

text \<open>
  \<^verbatim>\<open>cache.put(request, response)\<close> is refused with a TypeError when the request is
  not over http or https, when its method is not GET, when the response has status 206,
  and when its \<^verbatim>\<open>Vary\<close> header contains \<^verbatim>\<open>*\<close>.
\<close>

definition put_accepts :: "request \<Rightarrow> response \<Rightarrow> bool" where
  "put_accepts req r =
     (http_scheme (url req) \<and> http_method req = ''GET'' \<and> status r \<noteq> 206 \<and> ''*'' \<notin> set (vary r))"

text \<open>
  \<^verbatim>\<open>caches.match\<close> searches every cache of the storage, in order, and returns the first
  match. Given a URL it looks for a GET request of that URL; given a request of another
  method it finds nothing. \<^verbatim>\<open>caches.open\<close> creates the named cache when it is absent;
  \<^verbatim>\<open>caches.keys\<close> lists the names; \<^verbatim>\<open>caches.delete\<close> removes a cache.
\<close>

fun caches_match :: "string \<Rightarrow> cache_storage \<Rightarrow> response option" where
  "caches_match u [] = None"
| "caches_match u ((n, c) # s) =
     (case cache_match u c of Some r \<Rightarrow> Some r | None \<Rightarrow> caches_match u s)"

definition request_match :: "request \<Rightarrow> cache_storage \<Rightarrow> response option" where
  "request_match req s = (if http_method req = ''GET'' then caches_match (url req) s else None)"

definition caches_open :: "string \<Rightarrow> cache_storage \<Rightarrow> cache_storage" where
  "caches_open name s = (if name \<in> set (map fst s) then s else s @ [(name, [])])"

definition caches_keys :: "cache_storage \<Rightarrow> string list" where
  "caches_keys s = map fst s"

definition caches_delete :: "string \<Rightarrow> cache_storage \<Rightarrow> cache_storage" where
  "caches_delete name s = filter (\<lambda>(n, _). n \<noteq> name) s"

text \<open>
  \<^verbatim>\<open>c.put(request, response)\<close> on the cache \<open>c\<close> opened under a name: the promise
  it returns, and the storage afterwards. A refused put leaves the storage as it was.
\<close>

definition store_in :: "string \<Rightarrow> string \<Rightarrow> response \<Rightarrow> cache_storage \<Rightarrow> cache_storage" where
  "store_in name u r s = map (\<lambda>(n, c). if n = name then (n, store u r c) else (n, c)) s"

definition put_in ::
  "string \<Rightarrow> request \<Rightarrow> response \<Rightarrow> cache_storage \<Rightarrow> unit promise \<times> cache_storage" where
  "put_in name req r s =
     (if put_accepts req r then (Resolved (), store_in name (url req) r s)
      else (Rejected TypeError, s))"

text \<open>The cache stored under a name (empty when there is none), and its URLs.\<close>

definition cache_of :: "string \<Rightarrow> cache_storage \<Rightarrow> cache" where
  "cache_of name s = (case map_of s name of Some c \<Rightarrow> c | None \<Rightarrow> [])"

definition cached_urls :: "string \<Rightarrow> cache_storage \<Rightarrow> string list" where
  "cached_urls name s = map fst (cache_of name s)"

text \<open>
  \<^verbatim>\<open>c.addAll(urls)\<close> is rejected at once when a URL is not over http or https.
  Otherwise it requests every URL, with method GET. It stores the responses only when
  every request was answered with a status in the range 200 to 299 other than 206 and
  without \<^verbatim>\<open>*\<close> in the \<^verbatim>\<open>Vary\<close> header; it is rejected otherwise, storing nothing.
\<close>

definition addAll_accepts :: "response \<Rightarrow> bool" where
  "addAll_accepts r =
     (200 \<le> status r \<and> status r \<le> 299 \<and> status r \<noteq> 206 \<and> ''*'' \<notin> set (vary r))"

fun collect :: "network \<Rightarrow> string list \<Rightarrow> (string \<times> response) list promise" where
  "collect net [] = Resolved []"
| "collect net (u # us) =
     (case net u of
        Rejected e \<Rightarrow> Rejected e
      | Resolved r \<Rightarrow>
          if addAll_accepts r then
            (case collect net us of
               Rejected e \<Rightarrow> Rejected e
             | Resolved rs \<Rightarrow> Resolved ((u, r) # rs))
          else Rejected TypeError)"

definition put_all :: "string \<Rightarrow> (string \<times> response) list \<Rightarrow> cache_storage \<Rightarrow> cache_storage" where
  "put_all name rs s = fold (\<lambda>(u, r). store_in name u r) rs s"

definition addAll :: "network \<Rightarrow> string \<Rightarrow> string list \<Rightarrow> world \<Rightarrow> unit promise \<times> world" where
  "addAll net name urls w =
     (if list_all http_scheme urls then
        (let w1 = w\<lparr>issued := issued w @ urls\<rparr> in
         case collect net urls of
           Rejected e \<Rightarrow> (Rejected e, w1)
         | Resolved rs \<Rightarrow> (Resolved (), w1\<lparr>caches := put_all name rs (caches w1)\<rparr>))
      else (Rejected TypeError, w))"

text \<open>
  A URL given as a path (\<^verbatim>\<open>'/'\<close>, \<^verbatim>\<open>'/favicon.svg'\<close>) is resolved against the origin
  the worker is served from: the origin followed by the path. Resolution drops the
  fragment of the base, so an origin is read up to a \<^verbatim>\<open>#\<close>.
\<close>

definition resolve :: "string \<Rightarrow> string \<Rightarrow> string" where
  "resolve origin path = cache_key origin @ path"

text \<open>
  \<^verbatim>\<open>e.respondWith(p)\<close>: the page receives the response \<open>p\<close> resolves with; when \<open>p\<close>
  is rejected, or resolves with \<^verbatim>\<open>undefined\<close>, the page's fetch fails with a network
  error.
\<close>

datatype outcome = Response response | NetworkError

fun respondWith :: "response option promise \<Rightarrow> outcome" where
  "respondWith (Resolved (Some r)) = Response r"
| "respondWith (Resolved None) = NetworkError"
| "respondWith (Rejected e) = NetworkError"

text \<open>\<^verbatim>\<open>s.includes(p)\<close>: \<open>p\<close> occurs in \<open>s\<close> as a contiguous substring.\<close>

fun js_includes :: "string \<Rightarrow> string \<Rightarrow> bool" where
  "js_includes [] p = (p = [])"
| "js_includes (c # cs) p = (prefix p (c # cs) \<or> js_includes cs p)"

subsection \<open>The worker\<close>

text \<open>
  \<^verbatim>\<open>
  const CACHE_NAME = 'railreach-v1';
  const PRECACHE = ['/', '/assets/css/shared.css', '/assets/js/stations-data.js',
    '/assets/js/map-core.js', '/favicon.svg', '/manifest.json'];
  \<close>
\<close>

definition CACHE_NAME :: string where
  "CACHE_NAME = ''railreach-v1''"

definition PRECACHE :: "string list" where
  "PRECACHE =
     [''/'',
      ''/assets/css/shared.css'',
      ''/assets/js/stations-data.js'',
      ''/assets/js/map-core.js'',
      ''/favicon.svg'',
      ''/manifest.json'']"

text \<open>
  \<^verbatim>\<open>
  self.addEventListener('install', e => {
    e.waitUntil(caches.open(CACHE_NAME).then(c => c.addAll(PRECACHE)));
    self.skipWaiting();
  });
  \<close>
  The result is the promise given to \<^verbatim>\<open>waitUntil\<close>, and the state once it has settled.
\<close>

definition install_handler :: "string \<Rightarrow> network \<Rightarrow> world \<Rightarrow> unit promise \<times> world" where
  "install_handler origin net w =
     (let w1 = w\<lparr>caches := caches_open CACHE_NAME (caches w)\<rparr>;
          (p, w2) = addAll net CACHE_NAME (map (resolve origin) PRECACHE) w1
      in (p, w2\<lparr>skipped_waiting := True\<rparr>))"

text \<open>
  \<^verbatim>\<open>
  self.addEventListener('activate', e => {
    e.waitUntil(
      caches.keys().then(keys =>
        Promise.all(keys.filter(k => k !== CACHE_NAME).map(k => caches.delete(k)))));
    self.clients.claim();
  });
  \<close>
\<close>

definition activate_handler :: "world \<Rightarrow> world" where
  "activate_handler w =
     (let keys = caches_keys (caches w) in
      w\<lparr>caches := fold caches_delete (filter (\<lambda>k. k \<noteq> CACHE_NAME) keys) (caches w),
        clients_claimed := True\<rparr>)"

text \<open>
  The three branches of the fetch handler. Tiles:
  \<^verbatim>\<open>
  caches.match(e.request).then(cached => cached ||
    fetch(e.request).then(resp => {
      const clone = resp.clone();
      caches.open(CACHE_NAME).then(c => c.put(e.request, clone));
      return resp;
    }))
  \<close>
  The promise of the put is neither returned nor awaited: the response goes to the page
  whether the put is accepted or refused, and a refusal is dropped.
\<close>

definition tile_branch :: "network \<Rightarrow> request \<Rightarrow> world \<Rightarrow> outcome \<times> world" where
  "tile_branch net req w =
     (case request_match req (caches w) of
        Some cached \<Rightarrow> (respondWith (Resolved (Some cached)), w)
      | None \<Rightarrow>
          (case fetch net (url req) w of
             (Rejected e, w1) \<Rightarrow> (respondWith (Rejected e), w1)
           | (Resolved resp, w1) \<Rightarrow>
               (respondWith (Resolved (Some resp)),
                w1\<lparr>caches := snd (put_in CACHE_NAME req resp
                                     (caches_open CACHE_NAME (caches w1)))\<rparr>)))"

text \<open>
  Documents:
  \<^verbatim>\<open>
  fetch(e.request).catch(() => caches.match(e.request).then(r => r || caches.match('/')))
  \<close>
\<close>

definition document_branch :: "string \<Rightarrow> network \<Rightarrow> request \<Rightarrow> world \<Rightarrow> outcome \<times> world" where
  "document_branch origin net req w =
     (case fetch net (url req) w of
        (Resolved resp, w1) \<Rightarrow> (respondWith (Resolved (Some resp)), w1)
      | (Rejected e, w1) \<Rightarrow>
          (case request_match req (caches w1) of
             Some r \<Rightarrow> (respondWith (Resolved (Some r)), w1)
           | None \<Rightarrow>
               (respondWith (Resolved (caches_match (resolve origin ''/'') (caches w1))), w1)))"

text \<open>
  Any other asset:
  \<^verbatim>\<open>
  caches.match(e.request).then(cached => cached || fetch(e.request))
  \<close>
\<close>

definition asset_branch :: "network \<Rightarrow> request \<Rightarrow> world \<Rightarrow> outcome \<times> world" where
  "asset_branch net req w =
     (case request_match req (caches w) of
        Some cached \<Rightarrow> (respondWith (Resolved (Some cached)), w)
      | None \<Rightarrow>
          (case fetch net (url req) w of
             (Rejected e, w1) \<Rightarrow> (respondWith (Rejected e), w1)
           | (Resolved resp, w1) \<Rightarrow> (respondWith (Resolved (Some resp)), w1)))"

text \<open>
  \<^verbatim>\<open>
  self.addEventListener('fetch', e => {
    const url = new URL(e.request.url);
    if (url.hostname.includes('tile.openstreetmap.org')) { ... return; }
    if (e.request.destination === 'document') { ... } else { ... }
  });
  \<close>
\<close>

definition fetch_handler :: "string \<Rightarrow> network \<Rightarrow> request \<Rightarrow> world \<Rightarrow> outcome \<times> world" where
  "fetch_handler origin net req w =
     (if js_includes (hostname req) ''tile.openstreetmap.org'' then tile_branch net req w
      else if destination req = ''document'' then document_branch origin net req w
      else asset_branch net req w)"

text \<open>The stores of one \<^verbatim>\<open>addAll\<close>, on a single cache.\<close>

definition put_each :: "(string \<times> response) list \<Rightarrow> cache \<Rightarrow> cache" where
  "put_each rs c = fold (\<lambda>(u, r). store u r) rs c"

text \<open>What the \<^verbatim>\<open>addAll\<close> of the install handler collects, or why it is rejected.\<close>

definition precache_result :: "string \<Rightarrow> network \<Rightarrow> (string \<times> response) list promise" where
  "precache_result origin net =
     (if list_all http_scheme (map (resolve origin) PRECACHE)
      then collect net (map (resolve origin) PRECACHE)
      else Rejected TypeError)"

subsection \<open>Concrete inputs\<close>

text \<open>
  An origin; four networks (one that answers every URL with status 200 and the URL as
  body, one that is down, one that answers every URL with status 500, one that answers
  every URL with status 206); and worlds: one with no cache, the one the install handler
  leaves behind when the network answers, and one that holds the cache of an earlier
  version as well.
\<close>

definition example_origin :: string where
  "example_origin = ''https://railreach.example''"

definition online :: network where
  "online u = Resolved \<lparr>status = 200, vary = [], body = u\<rparr>"

definition offline :: network where
  "offline u = Rejected NetworkFailure"

definition failing :: network where
  "failing u = Resolved \<lparr>status = 500, vary = [], body = ''Internal Server Error''\<rparr>"

definition ranged :: network where
  "ranged u = Resolved \<lparr>status = 206, vary = [], body = ''part''\<rparr>"

definition fresh :: world where
  "fresh = \<lparr>caches = [], issued = [], skipped_waiting = False, clients_claimed = False\<rparr>"

definition installed :: world where
  "installed = snd (install_handler example_origin online fresh)"

definition stale :: world where
  "stale =
     \<lparr>caches =
        [(''railreach-v0'',
          [(''https://railreach.example/'', \<lparr>status = 200, vary = [], body = ''old''\<rparr>)]),
         (''railreach-v1'',
          [(''https://railreach.example/'', \<lparr>status = 200, vary = [], body = ''new''\<rparr>)]),
         (''fonts'', [])],
      issued = [], skipped_waiting = True, clients_claimed = False\<rparr>"

text \<open>
  Requests, all of method GET: two documents of the site, a map tile, a document on a
  host whose name only contains the tile provider's, and two assets of the site.
\<close>

definition about_page :: request where
  "about_page = \<lparr>url = ''https://railreach.example/about'', http_method = ''GET'',
                  hostname = ''railreach.example'', destination = ''document''\<rparr>"

definition root_page :: request where
  "root_page = \<lparr>url = ''https://railreach.example/'', http_method = ''GET'',
                 hostname = ''railreach.example'', destination = ''document''\<rparr>"

definition tile :: request where
  "tile = \<lparr>url = ''https://a.tile.openstreetmap.org/7/63/42.png'', http_method = ''GET'',
            hostname = ''a.tile.openstreetmap.org'', destination = ''image''\<rparr>"

definition lookalike :: request where
  "lookalike = \<lparr>url = ''https://tile.openstreetmap.org.example.com/index.html'',
                 http_method = ''GET'',
                 hostname = ''tile.openstreetmap.org.example.com'', destination = ''document''\<rparr>"

definition stylesheet :: request where
  "stylesheet = \<lparr>url = ''https://railreach.example/assets/css/shared.css'', http_method = ''GET'',
                  hostname = ''railreach.example'', destination = ''style''\<rparr>"

definition script :: request where
  "script = \<lparr>url = ''https://railreach.example/assets/js/extra.js'', http_method = ''GET'',
              hostname = ''railreach.example'', destination = ''script''\<rparr>"

section \<open>Properties of the platform operations\<close>

lemma cache_match_store: "cache_match u (store u r c) = Some r"
proof -
  have "map_of (map (\<lambda>(k, r). (cache_key k, r)) (filter (\<lambda>(k, _). cache_key k \<noteq> cache_key u) c))
          (cache_key u) = None"
    by (force simp: map_of_eq_None_iff)
  then show ?thesis
    by (simp add: cache_match_def store_def map_add_def)
qed

lemma cache_of_store_in:
  "name \<in> fst ` set s \<Longrightarrow> cache_of name (store_in name u r s) = store u r (cache_of name s)"
  by (induction s) (auto simp: cache_of_def store_in_def)

lemma caches_match_store_in:
  "caches_match u s = None \<Longrightarrow> name \<in> fst ` set s \<Longrightarrow>
   caches_match u (store_in name u r s) = Some r"
proof (induction s)
  case Nil
  then show ?case by simp
next
  case (Cons e s)
  obtain n c where e: "e = (n, c)" by (cases e)
  from Cons.prems(1) have m: "cache_match u c = None" and t: "caches_match u s = None"
    by (auto simp: e split: option.splits)
  show ?case
  proof (cases "n = name")
    case True
    then show ?thesis by (simp add: e store_in_def cache_match_store)
  next
    case False
    with Cons.prems(2) have "name \<in> fst ` set s" by (simp add: e)
    from Cons.IH [OF t this] False m show ?thesis by (simp add: e store_in_def)
  qed
qed

lemma caches_match_caches_open:
  "caches_match u (caches_open name s) = caches_match u s"
  by (induction s) (auto simp: caches_open_def cache_match_def split: option.splits)

lemma keys_caches_open:
  "fst ` set (caches_open name s) = insert name (fst ` set s)"
  by (auto simp: caches_open_def)

lemma caches_open_idem: "name \<in> fst ` set s \<Longrightarrow> caches_open name s = s"
  by (simp add: caches_open_def)

lemma cache_of_caches_open: "cache_of name' (caches_open name s) = cache_of name' s"
proof (cases "name \<in> set (map fst s)")
  case True
  then show ?thesis by (simp add: caches_open_def)
next
  case False
  then have "map_of s name = None" by (simp add: map_of_eq_None_iff)
  then show ?thesis
    by (cases "map_of s name'") (auto simp: cache_of_def caches_open_def map_add_def)
qed

lemma put_all_map:
  "put_all name rs s = map (\<lambda>(n, c). if n = name then (n, put_each rs c) else (n, c)) s"
proof (induction rs arbitrary: s)
  case Nil
  show ?case by (induction s) (auto simp: put_all_def put_each_def)
next
  case (Cons e rs)
  obtain u r where e: "e = (u, r)" by (cases e)
  have "put_all name (e # rs) s = put_all name rs (store_in name u r s)"
    by (simp add: put_all_def e)
  also have "\<dots> = map (\<lambda>(n, c). if n = name then (n, put_each rs c) else (n, c)) (store_in name u r s)"
    by (rule Cons.IH)
  also have "\<dots> = map (\<lambda>(n, c). if n = name then (n, put_each (e # rs) c) else (n, c)) s"
    by (simp add: store_in_def put_each_def e split_def)
  finally show ?case .
qed

lemma keys_put_all: "map fst (put_all name rs s) = map fst s"
  by (simp add: put_all_map split_def comp_def)

lemma map_of_put_all:
  "map_of (put_all name rs s) n =
     (if n = name then map_option (put_each rs) (map_of s n) else map_of s n)"
  unfolding put_all_map by (induction s) auto

lemma cache_of_put_all:
  "cache_of name' (put_all name rs s) =
     (if name' = name \<and> name \<in> fst ` set s then put_each rs (cache_of name s)
      else cache_of name' s)"
proof (cases "map_of s name'")
  case None
  then have p: "map_of (put_all name rs s) name' = None" by (auto simp: map_of_put_all)
  from None have "name' \<notin> fst ` set s" by (simp add: map_of_eq_None_iff)
  with None p show ?thesis by (auto simp: cache_of_def)
next
  case (Some c)
  then have "name' \<in> fst ` set s" by (metis map_of_eq_None_iff option.distinct(1))
  with Some show ?thesis by (auto simp: cache_of_def map_of_put_all)
qed

text \<open>
  When the URLs of the pairs differ pairwise up to fragments, storing them one after the
  other removes the entries they match and adds them all.
\<close>

lemma put_each_distinct:
  "distinct (map (cache_key \<circ> fst) rs) \<Longrightarrow>
   put_each rs c = filter (\<lambda>(k, _). cache_key k \<notin> set (map (cache_key \<circ> fst) rs)) c @ rs"
proof (induction rs arbitrary: c)
  case Nil
  show ?case by (simp add: put_each_def split_def)
next
  case (Cons e rs)
  obtain u r where e: "e = (u, r)" by (cases e)
  from Cons.prems have d: "distinct (map (cache_key \<circ> fst) rs)"
    and u: "cache_key u \<notin> set (map (cache_key \<circ> fst) rs)"
    by (simp_all add: e comp_def)
  have "put_each (e # rs) c = put_each rs (store u r c)"
    by (simp add: put_each_def e)
  also have "\<dots> = filter (\<lambda>(k, _). cache_key k \<notin> set (map (cache_key \<circ> fst) rs)) (store u r c) @ rs"
    by (rule Cons.IH [OF d])
  also have "filter (\<lambda>(k, _). cache_key k \<notin> set (map (cache_key \<circ> fst) rs)) (store u r c) =
             filter (\<lambda>(k, _). cache_key k \<notin> set (map (cache_key \<circ> fst) (e # rs))) c @ [e]"
    using u by (auto simp: store_def e split_def intro: filter_cong)
  finally show ?case by simp
qed

lemma put_each_idem:
  assumes "distinct (map (cache_key \<circ> fst) rs)"
  shows "put_each rs (put_each rs c) = put_each rs c"
proof -
  have "filter (\<lambda>(k, _). cache_key k \<notin> set (map (cache_key \<circ> fst) rs)) rs = []"
    by (force simp: filter_empty_conv)
  then show ?thesis
    by (simp add: put_each_distinct [OF assms])
qed

lemma put_all_idem:
  assumes "distinct (map (cache_key \<circ> fst) rs)"
  shows "put_all name rs (put_all name rs s) = put_all name rs s"
  unfolding put_all_map
  by (induction s) (auto simp: put_each_idem [OF assms])

lemma set_keys_put_each:
  assumes "distinct (map (cache_key \<circ> fst) rs)"
  shows "fst ` set (put_each rs c) =
         {k \<in> fst ` set c. cache_key k \<notin> cache_key ` fst ` set rs} \<union> fst ` set rs"
proof -
  have "fst ` {x \<in> set c. cache_key (fst x) \<notin> (\<lambda>x. cache_key (fst x)) ` set rs} =
        {k \<in> fst ` set c. cache_key k \<notin> cache_key ` fst ` set rs}"
    by force
  then show ?thesis
    by (simp add: put_each_distinct [OF assms] split_def image_Un comp_def)
qed

lemma collect_keys: "collect net us = Resolved rs \<Longrightarrow> map fst rs = us"
  by (induction us arbitrary: rs) (auto split: promise.splits if_splits)

text \<open>A resolved path without \<^verbatim>\<open>#\<close> has no fragment.\<close>

lemma cache_key_resolve:
  assumes "CHR ''#'' \<notin> set path"
  shows "cache_key (resolve origin path) = resolve origin path"
proof -
  have "takeWhile (\<lambda>c. c \<noteq> CHR ''#'') path = path"
    using assms by auto
  moreover have "takeWhile (\<lambda>c. c \<noteq> CHR ''#'') (takeWhile (\<lambda>c. c \<noteq> CHR ''#'') origin @ path) =
      takeWhile (\<lambda>c. c \<noteq> CHR ''#'') origin @ takeWhile (\<lambda>c. c \<noteq> CHR ''#'') path"
    by (rule takeWhile_append2) (auto dest: set_takeWhileD)
  ultimately show ?thesis by (simp add: cache_key_def resolve_def)
qed

lemma js_includes_iff: "js_includes s p \<longleftrightarrow> (\<exists>pre suf. s = pre @ p @ suf)"
proof (induction s)
  case Nil
  show ?case by auto
next
  case (Cons c cs)
  show ?case
  proof
    assume "js_includes (c # cs) p"
    then consider "prefix p (c # cs)" | "js_includes cs p" by auto
    then show "\<exists>pre suf. c # cs = pre @ p @ suf"
    proof cases
      case 1
      then obtain suf where "c # cs = p @ suf" by (auto simp: prefix_def)
      then have "c # cs = [] @ p @ suf" by simp
      then show ?thesis by blast
    next
      case 2
      with Cons.IH obtain pre suf where "cs = pre @ p @ suf" by blast
      then have "c # cs = (c # pre) @ p @ suf" by simp
      then show ?thesis by blast
    qed
  next
    assume "\<exists>pre suf. c # cs = pre @ p @ suf"
    then obtain pre suf where e: "c # cs = pre @ p @ suf" by blast
    show "js_includes (c # cs) p"
    proof (cases pre)
      case Nil
      with e have "prefix p (c # cs)" by (simp add: prefix_def)
      then show ?thesis by simp
    next
      case (Cons a pre')
      with e have "cs = pre' @ p @ suf" by simp
      with Cons.IH have "js_includes cs p" by blast
      then show ?thesis by simp
    qed
  qed
qed

lemma fold_caches_delete:
  "fold caches_delete ks s = filter (\<lambda>(n, _). n \<notin> set ks) s"
proof (induction ks arbitrary: s)
  case Nil
  then show ?case by simp
next
  case (Cons k ks)
  have "filter (\<lambda>(n, _). n \<notin> set ks) (caches_delete k s) =
        filter (\<lambda>(n, _). n \<notin> set (k # ks)) s"
    unfolding caches_delete_def filter_filter
    by (rule filter_cong) auto
  with Cons show ?case by simp
qed

lemma cache_of_filter_name:
  "cache_of name (filter (\<lambda>(n, _). n = name) s) = cache_of name s"
  by (induction s) (auto simp: cache_of_def)

section \<open>The colour thresholds\<close>

lemma getColor_NaN: "getColor NaN = ''#ef4444''"
  by (simp add: getColor_def)

text \<open>
  C3. \<open>getColor\<close> is a function of its argument alone. For every number \<open>m\<close> with
  \<open>m < 30\<close> it returns the green; for every \<open>m\<close> with \<open>m >= 30\<close> and \<open>m < 60\<close> the
  amber; for every \<open>m\<close> with \<open>m >= 60\<close> the red. At 30 it returns the amber and at 60
  the red.
\<close>

theorem getColor_thresholds:
  "(js_lt m (Finite 30) \<longrightarrow> getColor m = ''#22c55e'') \<and>
   (js_ge m (Finite 30) \<and> js_lt m (Finite 60) \<longrightarrow> getColor m = ''#f59e0b'') \<and>
   (js_ge m (Finite 60) \<longrightarrow> getColor m = ''#ef4444'') \<and>
   getColor (Finite 30) = ''#f59e0b'' \<and>
   getColor (Finite 60) = ''#ef4444''"
proof -
  have lt_trans: "js_lt m (Finite 60)" if "js_lt m (Finite 30)"
    using that by (cases m) simp_all
  show ?thesis
    by (auto simp: getColor_def js_ge_def dest: lt_trans)
qed

theorem getColor_thresholds_witness:
  "js_lt (Finite 29.999) (Finite 30) \<and> getColor (Finite 29.999) = ''#22c55e'' \<and>
   js_ge (Finite 59.999) (Finite 30) \<and> js_lt (Finite 59.999) (Finite 60) \<and>
   getColor (Finite 59.999) = ''#f59e0b'' \<and>
   js_ge PosInfinity (Finite 60) \<and> getColor PosInfinity = ''#ef4444''"
  using getColor_thresholds [of "Finite 29.999"] getColor_thresholds [of "Finite 59.999"]
    getColor_thresholds [of PosInfinity]
  by (simp add: js_ge_def)

section \<open>Install\<close>

lemma precache_keys:
  "map (cache_key \<circ> resolve origin) PRECACHE = map (resolve origin) PRECACHE"
  by (simp add: PRECACHE_def cache_key_resolve)

lemma distinct_precache: "distinct (map (resolve origin) PRECACHE)"
  by (simp add: distinct_map resolve_def PRECACHE_def inj_on_def)

text \<open>The two ways the install handler ends: \<open>addAll\<close> rejected, or resolved.\<close>

lemma install_rejected:
  assumes "precache_result origin net = Rejected e"
  shows "fst (install_handler origin net w) = Rejected e"
    and "caches (snd (install_handler origin net w)) = caches_open CACHE_NAME (caches w)"
  using assms
  by (simp_all add: precache_result_def install_handler_def addAll_def Let_def split: if_splits)

lemma install_resolved:
  assumes "precache_result origin net = Resolved rs"
  shows "fst (install_handler origin net w) = Resolved ()"
    and "caches (snd (install_handler origin net w)) =
           put_all CACHE_NAME rs (caches_open CACHE_NAME (caches w))"
    and "map fst rs = map (resolve origin) PRECACHE"
    and "distinct (map (cache_key \<circ> fst) rs)"
proof -
  from assms have c: "collect net (map (resolve origin) PRECACHE) = Resolved rs"
    and h: "list_all http_scheme (map (resolve origin) PRECACHE)"
    by (simp_all add: precache_result_def split: if_splits)
  from c h show "fst (install_handler origin net w) = Resolved ()"
    and "caches (snd (install_handler origin net w)) =
           put_all CACHE_NAME rs (caches_open CACHE_NAME (caches w))"
    by (simp_all add: install_handler_def addAll_def Let_def)
  show k: "map fst rs = map (resolve origin) PRECACHE"
    by (rule collect_keys [OF c])
  have "map (cache_key \<circ> fst) rs = map cache_key (map fst rs)" by simp
  also have "\<dots> = map (resolve origin) PRECACHE"
    unfolding k using precache_keys [of origin] by simp
  finally show "distinct (map (cache_key \<circ> fst) rs)"
    by (simp only: distinct_precache)
qed

lemma install_same_network:
  "caches (snd (install_handler origin net (snd (install_handler origin net w)))) =
   caches (snd (install_handler origin net w))"
proof (cases "precache_result origin net")
  case (Rejected e)
  have "caches_open CACHE_NAME (caches_open CACHE_NAME (caches w)) =
        caches_open CACHE_NAME (caches w)"
    by (rule caches_open_idem) (simp add: keys_caches_open)
  then show ?thesis by (simp add: install_rejected(2) [OF Rejected])
next
  case (Resolved rs)
  note d = install_resolved(4) [OF Resolved]
  let ?t = "put_all CACHE_NAME rs (caches_open CACHE_NAME (caches w))"
  have "map fst ?t = map fst (caches_open CACHE_NAME (caches w))"
    by (rule keys_put_all)
  then have "set (map fst ?t) = set (map fst (caches_open CACHE_NAME (caches w)))"
    by (rule arg_cong)
  then have "CACHE_NAME \<in> fst ` set ?t"
    by (simp add: keys_caches_open)
  then have "caches_open CACHE_NAME ?t = ?t" by (rule caches_open_idem)
  then show ?thesis
    by (simp add: install_resolved(2) [OF Resolved] put_all_idem [OF d])
qed

lemma install_urls:
  "set (cached_urls name (caches (snd (install_handler origin net w)))) =
     (if name = CACHE_NAME \<and> fst (install_handler origin net w) = Resolved ()
      then {k \<in> set (cached_urls name (caches w)).
              cache_key k \<notin> cache_key ` set (map (resolve origin) PRECACHE)} \<union>
           set (map (resolve origin) PRECACHE)
      else set (cached_urls name (caches w)))"
proof (cases "precache_result origin net")
  case (Rejected e)
  then show ?thesis
    by (simp add: install_rejected [OF Rejected] cached_urls_def cache_of_caches_open)
next
  case (Resolved rs)
  note k = install_resolved(3) [OF Resolved]
  note d = install_resolved(4) [OF Resolved]
  from k have "set (map fst rs) = set (map (resolve origin) PRECACHE)" by (rule arg_cong)
  then have k': "fst ` set rs = resolve origin ` set PRECACHE" by simp
  show ?thesis
    using set_keys_put_each [OF d, of "cache_of CACHE_NAME (caches w)"]
    by (simp add: install_resolved(1,2) [OF Resolved] cached_urls_def cache_of_put_all
        keys_caches_open cache_of_caches_open k')
qed

lemma precache_online:
  "precache_result example_origin online =
     Resolved (map (\<lambda>u. (u, \<lparr>status = 200, vary = [], body = u\<rparr>))
                (map (resolve example_origin) PRECACHE))"
  by (simp add: precache_result_def PRECACHE_def online_def addAll_accepts_def resolve_def
      example_origin_def cache_key_def http_scheme_def)

lemma caches_installed:
  "caches installed =
     [(''railreach-v1'',
       [(''https://railreach.example/'',
           \<lparr>status = 200, vary = [], body = ''https://railreach.example/''\<rparr>),
        (''https://railreach.example/assets/css/shared.css'',
           \<lparr>status = 200, vary = [], body = ''https://railreach.example/assets/css/shared.css''\<rparr>),
        (''https://railreach.example/assets/js/stations-data.js'',
           \<lparr>status = 200, vary = [],
            body = ''https://railreach.example/assets/js/stations-data.js''\<rparr>),
        (''https://railreach.example/assets/js/map-core.js'',
           \<lparr>status = 200, vary = [], body = ''https://railreach.example/assets/js/map-core.js''\<rparr>),
        (''https://railreach.example/favicon.svg'',
           \<lparr>status = 200, vary = [], body = ''https://railreach.example/favicon.svg''\<rparr>),
        (''https://railreach.example/manifest.json'',
           \<lparr>status = 200, vary = [], body = ''https://railreach.example/manifest.json''\<rparr>)])]"
  unfolding installed_def install_resolved(2) [OF precache_online]
  by (simp add: PRECACHE_def fresh_def caches_open_def put_all_def store_in_def store_def
      CACHE_NAME_def resolve_def example_origin_def cache_key_def)

text \<open>
  C5. When the install handler completes successfully on a cache storage that holds no
  cache, the storage holds the cache \<open>railreach-v1\<close> alone, and the URLs of that cache
  are the six URLs of the precache list, resolved against the worker's origin, each once
  and nothing else.
\<close>

theorem install_precaches:
  assumes "caches w = []"
    and "fst (install_handler origin net w) = Resolved ()"
  shows "caches_keys (caches (snd (install_handler origin net w))) = [CACHE_NAME] \<and>
         cached_urls CACHE_NAME (caches (snd (install_handler origin net w))) =
           map (resolve origin) PRECACHE \<and>
         length (cached_urls CACHE_NAME (caches (snd (install_handler origin net w)))) = 6 \<and>
         distinct (cached_urls CACHE_NAME (caches (snd (install_handler origin net w))))"
proof (cases "precache_result origin net")
  case (Rejected e)
  with assms(2) show ?thesis by (simp add: install_rejected(1))
next
  case (Resolved rs)
  note keys = install_resolved(3) [OF Resolved]
  note d = install_resolved(4) [OF Resolved]
  have c: "caches (snd (install_handler origin net w)) = [(CACHE_NAME, rs)]"
    by (simp add: install_resolved(2) [OF Resolved] assms(1) caches_open_def put_all_map
        put_each_distinct [OF d])
  have "cached_urls CACHE_NAME [(CACHE_NAME, rs)] = map (resolve origin) PRECACHE"
    by (simp add: cached_urls_def cache_of_def keys)
  moreover have "length PRECACHE = 6" by (simp add: PRECACHE_def)
  ultimately show ?thesis
    by (simp add: c caches_keys_def distinct_precache)
qed

theorem install_precaches_witness:
  "caches fresh = [] \<and>
   fst (install_handler example_origin online fresh) = Resolved () \<and>
   cached_urls CACHE_NAME (caches (snd (install_handler example_origin online fresh))) =
     [''https://railreach.example/'',
      ''https://railreach.example/assets/css/shared.css'',
      ''https://railreach.example/assets/js/stations-data.js'',
      ''https://railreach.example/assets/js/map-core.js'',
      ''https://railreach.example/favicon.svg'',
      ''https://railreach.example/manifest.json'']"
proof -
  have a: "caches fresh = []" by (simp add: fresh_def)
  have b: "fst (install_handler example_origin online fresh) = Resolved ()"
    by (rule install_resolved(1) [OF precache_online])
  show ?thesis
    using install_precaches [OF a b] a b
    by (simp add: PRECACHE_def resolve_def example_origin_def cache_key_def)
qed

text \<open>
  C6. Installing is idempotent. When the network answers the second run as it answered
  the first, the cache storage after two runs is the storage after one run. When the
  first run succeeded, a second run leaves the set of cached URLs of every cache as it
  was, whatever the network answers then.
\<close>

theorem install_idempotent:
  "caches (snd (install_handler origin net (snd (install_handler origin net w)))) =
     caches (snd (install_handler origin net w)) \<and>
   (fst (install_handler origin net w) = Resolved () \<longrightarrow>
      set (cached_urls name
            (caches (snd (install_handler origin net' (snd (install_handler origin net w)))))) =
      set (cached_urls name (caches (snd (install_handler origin net w)))))"
proof (intro conjI impI)
  show "caches (snd (install_handler origin net (snd (install_handler origin net w)))) =
     caches (snd (install_handler origin net w))"
    by (rule install_same_network)
next
  assume ok: "fst (install_handler origin net w) = Resolved ()"
  let ?w1 = "snd (install_handler origin net w)"
  let ?P = "set (map (resolve origin) PRECACHE)"
  let ?A0 = "set (cached_urls name (caches w))"
  let ?A1 = "set (cached_urls name (caches ?w1))"
  have first: "?A1 = (if name = CACHE_NAME
      then {k \<in> ?A0. cache_key k \<notin> cache_key ` ?P} \<union> ?P else ?A0)"
    using install_urls [of name origin net w] ok by simp
  have second: "set (cached_urls name (caches (snd (install_handler origin net' ?w1)))) =
      (if name = CACHE_NAME \<and> fst (install_handler origin net' ?w1) = Resolved ()
       then {k \<in> ?A1. cache_key k \<notin> cache_key ` ?P} \<union> ?P else ?A1)"
    by (rule install_urls)
  have "{k \<in> ?A1. cache_key k \<notin> cache_key ` ?P} \<union> ?P = ?A1" if "name = CACHE_NAME"
    unfolding first using that by auto
  with second
  show "set (cached_urls name (caches (snd (install_handler origin net' ?w1)))) = ?A1"
    by simp
qed

theorem install_idempotent_witness:
  "fst (install_handler example_origin online fresh) = Resolved () \<and>
   set (cached_urls CACHE_NAME (caches (snd (install_handler example_origin offline installed)))) =
     set (cached_urls CACHE_NAME (caches installed)) \<and>
   caches (snd (install_handler example_origin online installed)) = caches installed"
proof -
  have b: "fst (install_handler example_origin online fresh) = Resolved ()"
    by (rule install_resolved(1) [OF precache_online])
  from install_idempotent [of example_origin online fresh CACHE_NAME offline] b
  show ?thesis unfolding installed_def by blast
qed

section \<open>Activate\<close>

lemma activate_caches:
  "caches (activate_handler w) = filter (\<lambda>(n, _). n = CACHE_NAME) (caches w)"
proof -
  have "filter (\<lambda>(n, _). n \<notin> set (filter (\<lambda>k. k \<noteq> CACHE_NAME) (map fst s))) s =
        filter (\<lambda>(n, _). n = CACHE_NAME) s" for s :: cache_storage
    by (rule filter_cong) force+
  then show ?thesis
    by (simp add: activate_handler_def caches_keys_def fold_caches_delete)
qed

text \<open>
  C4. After the activate handler, whatever caches the storage held, no cache with a name
  other than \<open>railreach-v1\<close> is left; when the storage held the cache \<open>railreach-v1\<close>,
  it is the only name left; and that cache has its contents unchanged. The storage after
  the handler is the storage before, restricted to the name \<open>railreach-v1\<close>.
\<close>

theorem activate_purges:
  "(\<forall>n. n \<noteq> CACHE_NAME \<longrightarrow> n \<notin> set (caches_keys (caches (activate_handler w)))) \<and>
   (CACHE_NAME \<in> set (caches_keys (caches w)) \<longrightarrow>
      set (caches_keys (caches (activate_handler w))) = {CACHE_NAME}) \<and>
   cache_of CACHE_NAME (caches (activate_handler w)) = cache_of CACHE_NAME (caches w) \<and>
   caches (activate_handler w) = filter (\<lambda>(n, _). n = CACHE_NAME) (caches w)"
  unfolding activate_caches cache_of_filter_name caches_keys_def
  by force

theorem activate_purges_witness:
  "''railreach-v0'' \<noteq> CACHE_NAME \<and>
   ''railreach-v0'' \<in> set (caches_keys (caches stale)) \<and>
   ''railreach-v0'' \<notin> set (caches_keys (caches (activate_handler stale))) \<and>
   CACHE_NAME \<in> set (caches_keys (caches stale)) \<and>
   caches (activate_handler stale) =
     [(''railreach-v1'', [(''https://railreach.example/'', \<lparr>status = 200, vary = [], body = ''new''\<rparr>)])]"
  using activate_purges [of stale]
  by (simp add: CACHE_NAME_def caches_keys_def stale_def)

section \<open>Fetch\<close>

lemma request_match_caches_open:
  "request_match req (caches_open name s) = request_match req s"
  by (simp add: request_match_def caches_match_caches_open)

lemma request_match_stored:
  assumes "put_accepts req resp" and "request_match req s = None"
  shows "request_match req (store_in name (url req) resp (caches_open name s)) = Some resp"
proof -
  from assms(1) have g: "http_method req = ''GET''" by (simp add: put_accepts_def)
  with assms(2) have "caches_match (url req) (caches_open name s) = None"
    by (simp add: request_match_def caches_match_caches_open)
  then have "caches_match (url req) (store_in name (url req) resp (caches_open name s)) = Some resp"
    by (rule caches_match_store_in) (simp add: keys_caches_open)
  with g show ?thesis by (simp add: request_match_def)
qed

text \<open>The tile branch on a hit, and on a miss that the network answers.\<close>

lemma tile_branch_hit:
  "request_match req (caches w) = Some cached \<Longrightarrow> tile_branch net req w = (Response cached, w)"
  by (simp add: tile_branch_def)

lemma tile_branch_miss:
  assumes "request_match req (caches w) = None" and "net (url req) = Resolved resp"
  shows "tile_branch net req w =
     (Response resp,
      w\<lparr>issued := issued w @ [url req],
        caches := (if put_accepts req resp
                   then store_in CACHE_NAME (url req) resp (caches_open CACHE_NAME (caches w))
                   else caches_open CACHE_NAME (caches w))\<rparr>)"
  using assms by (simp add: tile_branch_def fetch_def put_in_def)

lemma tile_dispatch:
  "js_includes (hostname req) ''tile.openstreetmap.org'' \<Longrightarrow>
   fetch_handler origin net req w = tile_branch net req w"
  by (simp add: fetch_handler_def)

lemma tile_misses_installed: "request_match tile (caches installed) = None"
  by (simp add: caches_installed tile_def request_match_def cache_match_def cache_key_def)

lemma installed_has_cache: "caches_open CACHE_NAME (caches installed) = caches installed"
  by (simp add: caches_installed caches_open_def CACHE_NAME_def)

lemma tile_host: "js_includes (hostname tile) ''tile.openstreetmap.org''"
  by (simp add: tile_def)

lemma tile_ranged_installed:
  "fetch_handler example_origin ranged tile installed =
     (Response \<lparr>status = 206, vary = [], body = ''part''\<rparr>,
      installed\<lparr>issued := issued installed @ [url tile]\<rparr>)"
proof -
  have n: "ranged (url tile) = Resolved \<lparr>status = 206, vary = [], body = ''part''\<rparr>"
    by (simp add: ranged_def)
  have r: "\<not> put_accepts tile \<lparr>status = 206, vary = [], body = ''part''\<rparr>"
    by (simp add: put_accepts_def)
  show ?thesis
    unfolding tile_dispatch [OF tile_host] tile_branch_miss [where net = ranged, OF tile_misses_installed n]
    by (simp add: r installed_has_cache)
qed

text \<open>
  C2, as stated, fails: the tile is not in the cache, the network answers with status
  206, the page receives that response, and afterwards the cache \<open>railreach-v1\<close> holds
  no response for the tile: the caches are as they were.
\<close>

theorem tile_refill_counterexample:
  "js_includes (hostname tile) ''tile.openstreetmap.org'' \<and>
   request_match tile (caches installed) = None \<and>
   ranged (url tile) = Resolved \<lparr>status = 206, vary = [], body = ''part''\<rparr> \<and>
   fst (fetch_handler example_origin ranged tile installed) =
     Response \<lparr>status = 206, vary = [], body = ''part''\<rparr> \<and>
   caches (snd (fetch_handler example_origin ranged tile installed)) = caches installed \<and>
   cache_match (url tile)
     (cache_of CACHE_NAME (caches (snd (fetch_handler example_origin ranged tile installed)))) =
     None"
proof -
  have "cache_match (url tile) (cache_of CACHE_NAME (caches installed)) = None"
    by (simp add: caches_installed cache_of_def CACHE_NAME_def tile_def cache_match_def
        cache_key_def)
  then show ?thesis
    by (simp add: tile_ranged_installed tile_host tile_misses_installed ranged_def)
qed

text \<open>
  C2, amended. A request whose host name contains the tile provider's is served cache
  first, with refill. When the storage has a response for the request, the page
  receives it and the state is unchanged: no network request is issued. Otherwise the
  network is asked once. When it answers, the page receives the network's response; the
  cache \<open>railreach-v1\<close> then holds that response under the request's URL when the cache
  accepts the pair (a GET request over http or https, a status other than 206, no
  \<^verbatim>\<open>*\<close> in \<^verbatim>\<open>Vary\<close>), and nothing is stored when it refuses. When the network
  fails, the page's fetch fails and the caches are unchanged.
\<close>

theorem tile_cache_first:
  assumes "js_includes (hostname req) ''tile.openstreetmap.org''"
  shows
    "(request_match req (caches w) = Some cached \<longrightarrow>
        fetch_handler origin net req w = (Response cached, w)) \<and>
     (request_match req (caches w) = None \<and> net (url req) = Resolved resp \<longrightarrow>
        fst (fetch_handler origin net req w) = Response resp \<and>
        issued (snd (fetch_handler origin net req w)) = issued w @ [url req] \<and>
        (put_accepts req resp \<longrightarrow>
           cache_match (url req)
             (cache_of CACHE_NAME (caches (snd (fetch_handler origin net req w)))) = Some resp \<and>
           caches (snd (fetch_handler origin net req w)) =
             store_in CACHE_NAME (url req) resp (caches_open CACHE_NAME (caches w))) \<and>
        (\<not> put_accepts req resp \<longrightarrow>
           caches (snd (fetch_handler origin net req w)) =
             caches_open CACHE_NAME (caches w))) \<and>
     (request_match req (caches w) = None \<and> net (url req) = Rejected e \<longrightarrow>
        fst (fetch_handler origin net req w) = NetworkError \<and>
        issued (snd (fetch_handler origin net req w)) = issued w @ [url req] \<and>
        caches (snd (fetch_handler origin net req w)) = caches w)"
proof -
  have h: "fetch_handler origin net req w = tile_branch net req w"
    by (rule tile_dispatch [OF assms])
  have s: "cache_match (url req)
          (cache_of CACHE_NAME (store_in CACHE_NAME (url req) resp
             (caches_open CACHE_NAME (caches w)))) = Some resp"
    by (simp add: cache_of_store_in keys_caches_open cache_match_store)
  have hit: "request_match req (caches w) = Some cached \<longrightarrow>
      fetch_handler origin net req w = (Response cached, w)"
    by (simp add: h tile_branch_hit)
  have miss: "request_match req (caches w) = None \<and> net (url req) = Resolved resp \<longrightarrow>
        fst (fetch_handler origin net req w) = Response resp \<and>
        issued (snd (fetch_handler origin net req w)) = issued w @ [url req] \<and>
        (put_accepts req resp \<longrightarrow>
           cache_match (url req)
             (cache_of CACHE_NAME (caches (snd (fetch_handler origin net req w)))) = Some resp \<and>
           caches (snd (fetch_handler origin net req w)) =
             store_in CACHE_NAME (url req) resp (caches_open CACHE_NAME (caches w))) \<and>
        (\<not> put_accepts req resp \<longrightarrow>
           caches (snd (fetch_handler origin net req w)) =
             caches_open CACHE_NAME (caches w))"
    using s by (simp add: h tile_branch_miss)
  have down: "request_match req (caches w) = None \<and> net (url req) = Rejected e \<longrightarrow>
        fst (fetch_handler origin net req w) = NetworkError \<and>
        issued (snd (fetch_handler origin net req w)) = issued w @ [url req] \<and>
        caches (snd (fetch_handler origin net req w)) = caches w"
    by (simp add: h tile_branch_def fetch_def)
  from hit miss down show ?thesis by blast
qed

theorem tile_cache_first_witness:
  "js_includes (hostname tile) ''tile.openstreetmap.org'' \<and>
   request_match tile (caches installed) = None \<and>
   online (url tile) = Resolved \<lparr>status = 200, vary = [], body = url tile\<rparr> \<and>
   put_accepts tile \<lparr>status = 200, vary = [], body = url tile\<rparr> \<and>
   fst (fetch_handler example_origin online tile installed) =
     Response \<lparr>status = 200, vary = [], body = url tile\<rparr> \<and>
   cache_match (url tile)
     (cache_of CACHE_NAME (caches (snd (fetch_handler example_origin online tile installed)))) =
     Some \<lparr>status = 200, vary = [], body = url tile\<rparr> \<and>
   request_match tile (caches (snd (fetch_handler example_origin online tile installed))) =
     Some \<lparr>status = 200, vary = [], body = url tile\<rparr> \<and>
   fetch_handler example_origin offline tile
     (snd (fetch_handler example_origin online tile installed)) =
     (Response \<lparr>status = 200, vary = [], body = url tile\<rparr>,
      snd (fetch_handler example_origin online tile installed)) \<and>
   ranged (url tile) = Resolved \<lparr>status = 206, vary = [], body = ''part''\<rparr> \<and>
   \<not> put_accepts tile \<lparr>status = 206, vary = [], body = ''part''\<rparr> \<and>
   caches (snd (fetch_handler example_origin ranged tile installed)) =
     caches_open CACHE_NAME (caches installed) \<and>
   offline (url tile) = Rejected NetworkFailure \<and>
   fst (fetch_handler example_origin offline tile installed) = NetworkError"
proof -
  note a = tile_host
  note m = tile_misses_installed
  have n: "online (url tile) = Resolved \<lparr>status = 200, vary = [], body = url tile\<rparr>"
    by (simp add: online_def)
  have p: "put_accepts tile \<lparr>status = 200, vary = [], body = url tile\<rparr>"
    by (simp add: put_accepts_def tile_def http_scheme_def)
  have g: "ranged (url tile) = Resolved \<lparr>status = 206, vary = [], body = ''part''\<rparr>"
    by (simp add: ranged_def)
  have q: "\<not> put_accepts tile \<lparr>status = 206, vary = [], body = ''part''\<rparr>"
    by (simp add: put_accepts_def)
  have f: "offline (url tile) = Rejected NetworkFailure"
    by (simp add: offline_def)
  note miss = tile_cache_first [OF a, where w = installed and net = online
      and resp = "\<lparr>status = 200, vary = [], body = url tile\<rparr>" and origin = example_origin]
  from miss m n p
  have r: "fst (fetch_handler example_origin online tile installed) =
      Response \<lparr>status = 200, vary = [], body = url tile\<rparr>"
    and k: "cache_match (url tile)
      (cache_of CACHE_NAME (caches (snd (fetch_handler example_origin online tile installed)))) =
      Some \<lparr>status = 200, vary = [], body = url tile\<rparr>"
    and c: "caches (snd (fetch_handler example_origin online tile installed)) =
      store_in CACHE_NAME (url tile) \<lparr>status = 200, vary = [], body = url tile\<rparr>
        (caches_open CACHE_NAME (caches installed))"
    by blast+
  have s: "request_match tile
     (caches (snd (fetch_handler example_origin online tile installed))) =
     Some \<lparr>status = 200, vary = [], body = url tile\<rparr>"
    unfolding c by (rule request_match_stored [OF p m])
  note hit = tile_cache_first [OF a,
      where w = "snd (fetch_handler example_origin online tile installed)"
      and cached = "\<lparr>status = 200, vary = [], body = url tile\<rparr>"
      and origin = example_origin and net = offline]
  from hit s
  have h: "fetch_handler example_origin offline tile
     (snd (fetch_handler example_origin online tile installed)) =
     (Response \<lparr>status = 200, vary = [], body = url tile\<rparr>,
      snd (fetch_handler example_origin online tile installed))"
    by blast
  note refused = tile_cache_first [OF a, where w = installed and net = ranged
      and resp = "\<lparr>status = 206, vary = [], body = ''part''\<rparr>" and origin = example_origin]
  from refused m g q
  have x: "caches (snd (fetch_handler example_origin ranged tile installed)) =
     caches_open CACHE_NAME (caches installed)"
    by blast
  note down = tile_cache_first [OF a, where w = installed and net = offline
      and origin = example_origin and e = NetworkFailure]
  from down m f
  have d: "fst (fetch_handler example_origin offline tile installed) = NetworkError"
    by blast
  from a m n p r k s h g q x f d show ?thesis by blast
qed

text \<open>
  C10, as stated, fails: the tile is not in the cache and the network answers with
  status 206. The cache refuses that response, so the same request, made again, is not
  served it: the network is asked again and the page receives the network's new answer.
\<close>

theorem tile_repeat_counterexample:
  "js_includes (hostname tile) ''tile.openstreetmap.org'' \<and>
   request_match tile (caches installed) = None \<and>
   ranged (url tile) = Resolved \<lparr>status = 206, vary = [], body = ''part''\<rparr> \<and>
   fst (fetch_handler example_origin ranged tile installed) =
     Response \<lparr>status = 206, vary = [], body = ''part''\<rparr> \<and>
   fst (fetch_handler example_origin online tile
          (snd (fetch_handler example_origin ranged tile installed))) =
     Response \<lparr>status = 200, vary = [], body = url tile\<rparr> \<and>
   fst (fetch_handler example_origin online tile
          (snd (fetch_handler example_origin ranged tile installed))) \<noteq>
     Response \<lparr>status = 206, vary = [], body = ''part''\<rparr> \<and>
   issued (snd (fetch_handler example_origin online tile
                  (snd (fetch_handler example_origin ranged tile installed)))) =
     issued installed @ [url tile, url tile]"
proof -
  let ?w1 = "installed\<lparr>issued := issued installed @ [url tile]\<rparr>"
  have m: "request_match tile (caches ?w1) = None"
    by (simp add: tile_misses_installed)
  have n: "online (url tile) = Resolved \<lparr>status = 200, vary = [], body = url tile\<rparr>"
    by (simp add: online_def)
  have "fetch_handler example_origin online tile ?w1 =
     (Response \<lparr>status = 200, vary = [], body = url tile\<rparr>,
      ?w1\<lparr>issued := issued ?w1 @ [url tile],
           caches := (if put_accepts tile \<lparr>status = 200, vary = [], body = url tile\<rparr>
                      then store_in CACHE_NAME (url tile) \<lparr>status = 200, vary = [], body = url tile\<rparr>
                             (caches_open CACHE_NAME (caches ?w1))
                      else caches_open CACHE_NAME (caches ?w1))\<rparr>)"
    unfolding tile_dispatch [OF tile_host] by (rule tile_branch_miss [where net = online, OF m n])
  then show ?thesis
    by (simp add: tile_ranged_installed tile_host tile_misses_installed ranged_def)
qed

text \<open>
  C10, amended. On a miss in the tile branch the worker gives the network's response to
  the cache without looking at its status. Every response the cache accepts for the
  request (a GET request over http or https, a status other than 206, no \<^verbatim>\<open>*\<close> in
  \<^verbatim>\<open>Vary\<close>), error statuses such as 404 and 500 included, is stored: the same request,
  made again, receives the stored response and the state is unchanged, so no network
  request is issued, whatever the network would answer then. A response the cache
  refuses is not stored: the same request, made again, misses again and goes to the
  network.
\<close>

theorem tile_stores_any_response:
  assumes "js_includes (hostname req) ''tile.openstreetmap.org''"
    and "request_match req (caches w) = None"
    and "net (url req) = Resolved resp"
  shows
    "fst (fetch_handler origin net req w) = Response resp \<and>
     (put_accepts req resp \<longrightarrow>
        cache_match (url req)
          (cache_of CACHE_NAME (caches (snd (fetch_handler origin net req w)))) = Some resp \<and>
        fetch_handler origin net' req (snd (fetch_handler origin net req w)) =
          (Response resp, snd (fetch_handler origin net req w))) \<and>
     (\<not> put_accepts req resp \<longrightarrow>
        caches (snd (fetch_handler origin net req w)) = caches_open CACHE_NAME (caches w) \<and>
        request_match req (caches (snd (fetch_handler origin net req w))) = None \<and>
        issued (snd (fetch_handler origin net' req (snd (fetch_handler origin net req w)))) =
          issued w @ [url req, url req])"
proof -
  let ?w1 = "snd (fetch_handler origin net req w)"
  have h: "fetch_handler origin n req v = tile_branch n req v" for n v
    by (rule tile_dispatch [OF assms(1)])
  note first = tile_branch_miss [where net = net, OF assms(2,3)]
  have r: "fst (fetch_handler origin net req w) = Response resp"
    by (simp add: h first)
  have i: "issued ?w1 = issued w @ [url req]"
    by (simp add: h first)
  have accepted: "cache_match (url req) (cache_of CACHE_NAME (caches ?w1)) = Some resp \<and>
      fetch_handler origin net' req ?w1 = (Response resp, ?w1)" if p: "put_accepts req resp"
  proof -
    have c: "caches ?w1 = store_in CACHE_NAME (url req) resp (caches_open CACHE_NAME (caches w))"
      by (simp add: h first p)
    have stored: "cache_match (url req) (cache_of CACHE_NAME (caches ?w1)) = Some resp"
      by (simp add: c cache_of_store_in keys_caches_open cache_match_store)
    have "request_match req (caches ?w1) = Some resp"
      unfolding c by (rule request_match_stored [OF p assms(2)])
    then have "tile_branch net' req ?w1 = (Response resp, ?w1)"
      by (rule tile_branch_hit)
    with stored show ?thesis by (simp add: h)
  qed
  have refused: "caches ?w1 = caches_open CACHE_NAME (caches w) \<and>
      request_match req (caches ?w1) = None \<and>
      issued (snd (fetch_handler origin net' req ?w1)) = issued w @ [url req, url req]"
    if q: "\<not> put_accepts req resp"
  proof -
    have c: "caches ?w1 = caches_open CACHE_NAME (caches w)"
      by (simp add: h first q)
    have m: "request_match req (caches ?w1) = None"
      by (simp add: c request_match_caches_open assms(2))
    have "issued (snd (tile_branch net' req ?w1)) = issued ?w1 @ [url req]"
      by (cases "net' (url req)") (simp_all add: tile_branch_def m fetch_def)
    with c m i show ?thesis by (simp add: h)
  qed
  from r accepted refused show ?thesis by blast
qed

theorem tile_stores_any_response_witness:
  "js_includes (hostname tile) ''tile.openstreetmap.org'' \<and>
   request_match tile (caches installed) = None \<and>
   failing (url tile) = Resolved \<lparr>status = 500, vary = [], body = ''Internal Server Error''\<rparr> \<and>
   put_accepts tile \<lparr>status = 500, vary = [], body = ''Internal Server Error''\<rparr> \<and>
   fst (fetch_handler example_origin failing tile installed) =
     Response \<lparr>status = 500, vary = [], body = ''Internal Server Error''\<rparr> \<and>
   cache_match (url tile)
     (cache_of CACHE_NAME (caches (snd (fetch_handler example_origin failing tile installed)))) =
     Some \<lparr>status = 500, vary = [], body = ''Internal Server Error''\<rparr> \<and>
   fetch_handler example_origin online tile
     (snd (fetch_handler example_origin failing tile installed)) =
     (Response \<lparr>status = 500, vary = [], body = ''Internal Server Error''\<rparr>,
      snd (fetch_handler example_origin failing tile installed)) \<and>
   ranged (url tile) = Resolved \<lparr>status = 206, vary = [], body = ''part''\<rparr> \<and>
   \<not> put_accepts tile \<lparr>status = 206, vary = [], body = ''part''\<rparr> \<and>
   request_match tile (caches (snd (fetch_handler example_origin ranged tile installed))) = None \<and>
   issued (snd (fetch_handler example_origin online tile
                  (snd (fetch_handler example_origin ranged tile installed)))) =
     issued installed @ [url tile, url tile]"
proof -
  note a = tile_host
  note m = tile_misses_installed
  have n: "failing (url tile) =
      Resolved \<lparr>status = 500, vary = [], body = ''Internal Server Error''\<rparr>"
    by (simp add: failing_def)
  have p: "put_accepts tile \<lparr>status = 500, vary = [], body = ''Internal Server Error''\<rparr>"
    by (simp add: put_accepts_def tile_def http_scheme_def)
  have g: "ranged (url tile) = Resolved \<lparr>status = 206, vary = [], body = ''part''\<rparr>"
    by (simp add: ranged_def)
  have q: "\<not> put_accepts tile \<lparr>status = 206, vary = [], body = ''part''\<rparr>"
    by (simp add: put_accepts_def)
  note kept = tile_stores_any_response [where net = failing and origin = example_origin
      and net' = online, OF a m n]
  note dropped = tile_stores_any_response [where net = ranged and origin = example_origin
      and net' = online, OF a m g]
  from kept dropped a m n p g q show ?thesis by blast
qed

text \<open>
  C9. The tile branch is chosen by substring: a request whose host name contains
  \<open>tile.openstreetmap.org\<close> anywhere is handled by the tile branch, whatever its
  destination, so before the document and the asset branches. The host
  \<open>tile.openstreetmap.org.example.com\<close> with destination \<open>document\<close> is an instance.
\<close>

theorem tile_dispatch_substring:
  assumes "hostname req = pre @ ''tile.openstreetmap.org'' @ suf"
  shows "fetch_handler origin net req w = tile_branch net req w"
proof -
  from assms have "js_includes (hostname req) ''tile.openstreetmap.org''"
    unfolding js_includes_iff by blast
  then show ?thesis by (simp add: fetch_handler_def)
qed

theorem tile_dispatch_substring_witness:
  "hostname lookalike = [] @ ''tile.openstreetmap.org'' @ ''.example.com'' \<and>
   destination lookalike = ''document'' \<and>
   fetch_handler example_origin offline lookalike installed =
     tile_branch offline lookalike installed \<and>
   fetch_handler example_origin online lookalike installed =
     (Response \<lparr>status = 200, vary = [], body = url lookalike\<rparr>,
      installed\<lparr>issued := issued installed @ [url lookalike],
                caches := store_in CACHE_NAME (url lookalike)
                    \<lparr>status = 200, vary = [], body = url lookalike\<rparr> (caches installed)\<rparr>) \<and>
   hostname tile = ''a.'' @ ''tile.openstreetmap.org'' @ [] \<and>
   fetch_handler example_origin online tile installed = tile_branch online tile installed"
proof -
  have a: "hostname lookalike = [] @ ''tile.openstreetmap.org'' @ ''.example.com''"
    and b: "destination lookalike = ''document''"
    by (simp_all add: lookalike_def)
  have c: "hostname tile = ''a.'' @ ''tile.openstreetmap.org'' @ []"
    by (simp add: tile_def)
  have m: "request_match lookalike (caches installed) = None"
    by (simp add: caches_installed lookalike_def request_match_def cache_match_def cache_key_def)
  have n: "online (url lookalike) = Resolved \<lparr>status = 200, vary = [], body = url lookalike\<rparr>"
    by (simp add: online_def)
  have p: "put_accepts lookalike \<lparr>status = 200, vary = [], body = url lookalike\<rparr>"
    by (simp add: put_accepts_def lookalike_def http_scheme_def)
  have t: "tile_branch online lookalike installed =
     (Response \<lparr>status = 200, vary = [], body = url lookalike\<rparr>,
      installed\<lparr>issued := issued installed @ [url lookalike],
                caches := store_in CACHE_NAME (url lookalike)
                    \<lparr>status = 200, vary = [], body = url lookalike\<rparr> (caches installed)\<rparr>)"
    unfolding tile_branch_miss [where net = online, OF m n]
    by (simp add: p installed_has_cache)
  note d1 = tile_dispatch_substring [OF a, where origin = example_origin and net = offline
      and w = installed]
  note d2 = tile_dispatch_substring [OF a, where origin = example_origin and net = online
      and w = installed]
  note d3 = tile_dispatch_substring [OF c, where origin = example_origin and net = online
      and w = installed]
  from a b c d1 d2 [unfolded t] d3 show ?thesis by blast
qed

text \<open>
  C1. A request for a document, on a host that is not the tile provider's, goes to the
  network first: the network is asked once and the caches are unchanged. When the
  network answers, the page receives its response. When the network fails, the page
  receives the cached response for the request's URL when there is one, and otherwise
  the cached response for the root page \<open>/\<close> when there is one.
\<close>

theorem document_network_first:
  assumes "\<not> js_includes (hostname req) ''tile.openstreetmap.org''"
    and "destination req = ''document''"
  shows
    "issued (snd (fetch_handler origin net req w)) = issued w @ [url req] \<and>
     caches (snd (fetch_handler origin net req w)) = caches w \<and>
     (net (url req) = Resolved resp \<longrightarrow>
        fst (fetch_handler origin net req w) = Response resp) \<and>
     (net (url req) = Rejected e \<and> request_match req (caches w) = Some cached \<longrightarrow>
        fst (fetch_handler origin net req w) = Response cached) \<and>
     (net (url req) = Rejected e \<and> request_match req (caches w) = None \<and>
      caches_match (resolve origin ''/'') (caches w) = Some home \<longrightarrow>
        fst (fetch_handler origin net req w) = Response home)"
proof -
  have h: "fetch_handler origin net req w = document_branch origin net req w"
    using assms by (simp add: fetch_handler_def)
  show ?thesis
    unfolding h document_branch_def fetch_def
    by (cases "net (url req)"; cases "request_match req (caches w)") simp_all
qed

theorem document_network_first_witness:
  "\<not> js_includes (hostname root_page) ''tile.openstreetmap.org'' \<and>
   destination root_page = ''document'' \<and>
   \<not> js_includes (hostname about_page) ''tile.openstreetmap.org'' \<and>
   destination about_page = ''document'' \<and>
   online (url about_page) = Resolved \<lparr>status = 200, vary = [], body = url about_page\<rparr> \<and>
   fst (fetch_handler example_origin online about_page installed) =
     Response \<lparr>status = 200, vary = [], body = url about_page\<rparr> \<and>
   offline (url root_page) = Rejected NetworkFailure \<and>
   request_match root_page (caches installed) =
     Some \<lparr>status = 200, vary = [], body = ''https://railreach.example/''\<rparr> \<and>
   fst (fetch_handler example_origin offline root_page installed) =
     Response \<lparr>status = 200, vary = [], body = ''https://railreach.example/''\<rparr> \<and>
   offline (url about_page) = Rejected NetworkFailure \<and>
   request_match about_page (caches installed) = None \<and>
   caches_match (resolve example_origin ''/'') (caches installed) =
     Some \<lparr>status = 200, vary = [], body = ''https://railreach.example/''\<rparr> \<and>
   fst (fetch_handler example_origin offline about_page installed) =
     Response \<lparr>status = 200, vary = [], body = ''https://railreach.example/''\<rparr> \<and>
   issued (snd (fetch_handler example_origin offline about_page installed)) =
     issued installed @ [url about_page]"
proof -
  have a1: "\<not> js_includes (hostname root_page) ''tile.openstreetmap.org''"
    and a2: "destination root_page = ''document''"
    by (simp_all add: root_page_def)
  have b1: "\<not> js_includes (hostname about_page) ''tile.openstreetmap.org''"
    and b2: "destination about_page = ''document''"
    by (simp_all add: about_page_def)
  have n: "online (url about_page) = Resolved \<lparr>status = 200, vary = [], body = url about_page\<rparr>"
    by (simp add: online_def)
  have f1: "offline (url root_page) = Rejected NetworkFailure"
    and f2: "offline (url about_page) = Rejected NetworkFailure"
    by (simp_all add: offline_def)
  have m1: "request_match root_page (caches installed) =
      Some \<lparr>status = 200, vary = [], body = ''https://railreach.example/''\<rparr>"
    by (simp add: caches_installed root_page_def request_match_def cache_match_def cache_key_def)
  have m2: "request_match about_page (caches installed) = None"
    by (simp add: caches_installed about_page_def request_match_def cache_match_def cache_key_def)
  have m3: "caches_match (resolve example_origin ''/'') (caches installed) =
      Some \<lparr>status = 200, vary = [], body = ''https://railreach.example/''\<rparr>"
    by (simp add: caches_installed resolve_def example_origin_def request_match_def cache_match_def cache_key_def)
  from document_network_first [OF b1 b2, where net = online and w = installed
      and origin = example_origin] n
  have r1: "fst (fetch_handler example_origin online about_page installed) =
      Response \<lparr>status = 200, vary = [], body = url about_page\<rparr>"
    by blast
  from document_network_first [OF a1 a2, where net = offline and w = installed
      and origin = example_origin] f1 m1
  have r2: "fst (fetch_handler example_origin offline root_page installed) =
      Response \<lparr>status = 200, vary = [], body = ''https://railreach.example/''\<rparr>"
    by blast
  from document_network_first [OF b1 b2, where net = offline and w = installed
      and origin = example_origin] f2 m2 m3
  have r3: "fst (fetch_handler example_origin offline about_page installed) =
      Response \<lparr>status = 200, vary = [], body = ''https://railreach.example/''\<rparr>"
    and r4: "issued (snd (fetch_handler example_origin offline about_page installed)) =
      issued installed @ [url about_page]"
    by blast+
  from a1 a2 b1 b2 n f1 f2 m1 m2 m3 r1 r2 r3 r4 show ?thesis by blast
qed

text \<open>
  C7. For a document request whose network fetch fails, with neither a cached response
  for its URL nor a cached root page, the page's fetch fails with a network error: no
  response is made up.
\<close>

theorem document_failure_propagates:
  assumes "\<not> js_includes (hostname req) ''tile.openstreetmap.org''"
    and "destination req = ''document''"
    and "net (url req) = Rejected e"
    and "request_match req (caches w) = None"
    and "caches_match (resolve origin ''/'') (caches w) = None"
  shows "fst (fetch_handler origin net req w) = NetworkError \<and>
         caches (snd (fetch_handler origin net req w)) = caches w"
  using assms by (simp add: fetch_handler_def document_branch_def fetch_def)

theorem document_failure_propagates_witness:
  "\<not> js_includes (hostname about_page) ''tile.openstreetmap.org'' \<and>
   destination about_page = ''document'' \<and>
   offline (url about_page) = Rejected NetworkFailure \<and>
   request_match about_page (caches fresh) = None \<and>
   caches_match (resolve example_origin ''/'') (caches fresh) = None \<and>
   fst (fetch_handler example_origin offline about_page fresh) = NetworkError"
proof -
  have a: "\<not> js_includes (hostname about_page) ''tile.openstreetmap.org''"
    and b: "destination about_page = ''document''"
    by (simp_all add: about_page_def)
  have c: "offline (url about_page) = Rejected NetworkFailure"
    by (simp add: offline_def)
  have d: "request_match about_page (caches fresh) = None"
    and e: "caches_match (resolve example_origin ''/'') (caches fresh) = None"
    by (simp_all add: fresh_def request_match_def)
  from document_failure_propagates [where net = offline and origin = example_origin,
      OF a b c d e] a b c d e
  show ?thesis by blast
qed

text \<open>
  C8. A request that is neither for the tile provider nor for a document is served from
  the cache when the storage has a response for it, with no network request; otherwise
  the network is asked once and its answer, or its failure, is passed on. In every case
  the caches are unchanged: the network's response is not stored.
\<close>

theorem asset_cache_first:
  assumes "\<not> js_includes (hostname req) ''tile.openstreetmap.org''"
    and "destination req \<noteq> ''document''"
  shows
    "caches (snd (fetch_handler origin net req w)) = caches w \<and>
     (request_match req (caches w) = Some cached \<longrightarrow>
        fetch_handler origin net req w = (Response cached, w)) \<and>
     (request_match req (caches w) = None \<longrightarrow>
        issued (snd (fetch_handler origin net req w)) = issued w @ [url req]) \<and>
     (request_match req (caches w) = None \<and> net (url req) = Resolved resp \<longrightarrow>
        fst (fetch_handler origin net req w) = Response resp) \<and>
     (request_match req (caches w) = None \<and> net (url req) = Rejected e \<longrightarrow>
        fst (fetch_handler origin net req w) = NetworkError)"
proof -
  have h: "fetch_handler origin net req w = asset_branch net req w"
    using assms by (simp add: fetch_handler_def)
  show ?thesis
    unfolding h asset_branch_def fetch_def
    by (cases "net (url req)"; cases "request_match req (caches w)") simp_all
qed

theorem asset_cache_first_witness:
  "\<not> js_includes (hostname stylesheet) ''tile.openstreetmap.org'' \<and>
   destination stylesheet \<noteq> ''document'' \<and>
   \<not> js_includes (hostname script) ''tile.openstreetmap.org'' \<and>
   destination script \<noteq> ''document'' \<and>
   request_match stylesheet (caches installed) =
     Some \<lparr>status = 200, vary = [], body = url stylesheet\<rparr> \<and>
   fetch_handler example_origin offline stylesheet installed =
     (Response \<lparr>status = 200, vary = [], body = url stylesheet\<rparr>, installed) \<and>
   request_match script (caches installed) = None \<and>
   online (url script) = Resolved \<lparr>status = 200, vary = [], body = url script\<rparr> \<and>
   fst (fetch_handler example_origin online script installed) =
     Response \<lparr>status = 200, vary = [], body = url script\<rparr> \<and>
   caches (snd (fetch_handler example_origin online script installed)) = caches installed \<and>
   request_match script (caches (snd (fetch_handler example_origin online script installed))) = None \<and>
   offline (url script) = Rejected NetworkFailure \<and>
   fst (fetch_handler example_origin offline script installed) = NetworkError"
proof -
  have a1: "\<not> js_includes (hostname stylesheet) ''tile.openstreetmap.org''"
    and a2: "destination stylesheet \<noteq> ''document''"
    by (simp_all add: stylesheet_def)
  have b1: "\<not> js_includes (hostname script) ''tile.openstreetmap.org''"
    and b2: "destination script \<noteq> ''document''"
    by (simp_all add: script_def)
  have m1: "request_match stylesheet (caches installed) =
      Some \<lparr>status = 200, vary = [], body = url stylesheet\<rparr>"
    by (simp add: caches_installed stylesheet_def request_match_def cache_match_def cache_key_def)
  have m2: "request_match script (caches installed) = None"
    by (simp add: caches_installed script_def request_match_def cache_match_def cache_key_def)
  have n: "online (url script) = Resolved \<lparr>status = 200, vary = [], body = url script\<rparr>"
    by (simp add: online_def)
  have f: "offline (url script) = Rejected NetworkFailure"
    by (simp add: offline_def)
  from asset_cache_first [OF a1 a2, where w = installed and net = offline
      and origin = example_origin] m1
  have r1: "fetch_handler example_origin offline stylesheet installed =
      (Response \<lparr>status = 200, vary = [], body = url stylesheet\<rparr>, installed)"
    by blast
  from asset_cache_first [OF b1 b2, where w = installed and net = online
      and origin = example_origin] m2 n
  have r2: "fst (fetch_handler example_origin online script installed) =
      Response \<lparr>status = 200, vary = [], body = url script\<rparr>"
    and r3: "caches (snd (fetch_handler example_origin online script installed)) =
      caches installed"
    by blast+
  from r3 m2 have r4: "request_match script
      (caches (snd (fetch_handler example_origin online script installed))) = None"
    by simp
  from asset_cache_first [OF b1 b2, where w = installed and net = offline
      and origin = example_origin] m2 f
  have r5: "fst (fetch_handler example_origin offline script installed) = NetworkError"
    by blast
  from a1 a2 b1 b2 m1 m2 n f r1 r2 r3 r4 r5 show ?thesis by blast
qed

end
